theory Spec2Isabelle
  imports Main "HOL-Library.Word"
begin

section \<open>The data writer of the Postgres wire server (writer.go)\<close>

subsection \<open>Collaborators\<close>

text \<open>
  Modelled from the spec: the message tags of package \<^verbatim>\<open>types\<close>, which the writer only
  names. The two tags used by writer.go are kept apart by name; their byte values play
  no part in what the writer does.
\<close>

datatype ServerMessage = ServerCommandComplete | ServerCopyInResponse

text \<open>
  Modelled from the spec: the frame sink (\<^verbatim>\<open>buffer.Writer\<close>) and the row codec (the methods
  \<^verbatim>\<open>Define\<close> and \<^verbatim>\<open>Write\<close> of \<^verbatim>\<open>Columns\<close>). The spec gives their interface only: a tagged
  message builder with begin-message, append-byte, append-int16, append-string,
  append-null-terminator and end-message, and a codec that is handed the sink. The sink
  is therefore represented by the calls made on it, in order; handing the sink to the
  codec is one such entry, since what the codec writes is its own business. What a
  collaborator answers (the error of \<^verbatim>\<open>End\<close>, \<^verbatim>\<open>Define\<close> or \<^verbatim>\<open>Write\<close>) is decided outside of
  the writer and is an argument of the operation that asks for it.
\<close>

datatype ('x, 'c, 'f, 'v) sink_call =
    Start ServerMessage
  | AddByte "8 word"
  | AddInt16 "16 word"
  | AddString string
  | AddNullTerminate
  | End
  | Columns_Define "'c option" 'x "'f list"
  | Columns_Write "'c option" 'x "'f list" "'v list"

type_synonym ('x, 'c, 'f, 'v) buffer_Writer = "('x, 'c, 'f, 'v) sink_call list"

text \<open>
  Go's \<^verbatim>\<open>error\<close> results: the two sentinel errors of writer.go and the errors of the
  collaborators, which the writer passes on as they are. \<^verbatim>\<open>nil\<close> is \<open>None\<close>.
\<close>

datatype error = ErrDataWritten | ErrClosedWriter | ErrCollaborator string

definition collaborator :: "string option \<Rightarrow> error option" where
  "collaborator r = map_option ErrCollaborator r"

subsection \<open>The writer\<close>

text \<open>
  \<^verbatim>\<open>columns\<close> is a slice and is compared with \<^verbatim>\<open>nil\<close>, hence an option; \<^verbatim>\<open>written\<close> is a
  \<^verbatim>\<open>uint64\<close>. The context, the column descriptors, the format codes and the row values
  are opaque to the writer.
\<close>

record ('x, 'c, 'f, 'v) dataWriter =
  ctx :: 'x
  columns :: "'c option"
  formats :: "'f list"
  client :: "('x, 'c, 'f, 'v) buffer_Writer"
  closed :: bool
  written :: "64 word"

definition NewDataWriter ::
  "'x \<Rightarrow> 'c option \<Rightarrow> 'f list \<Rightarrow> ('x, 'c, 'f, 'v) buffer_Writer \<Rightarrow> ('x, 'c, 'f, 'v) dataWriter" where
  "NewDataWriter c cols fmts writer =
     \<lparr>ctx = c, columns = cols, formats = fmts, client = writer, closed = False, written = 0\<rparr>"

definition Define ::
  "'c option \<Rightarrow> string option \<Rightarrow> ('x, 'c, 'f, 'v) dataWriter
     \<Rightarrow> error option \<times> ('x, 'c, 'f, 'v) dataWriter" where
  "Define cols codec_result writer =
     (if closed writer then (Some ErrClosedWriter, writer)
      else
        let writer = writer\<lparr>columns := cols\<rparr>
        in (collaborator codec_result,
            writer\<lparr>client := client writer
                      @ [Columns_Define (columns writer) (ctx writer) (formats writer)]\<rparr>))"

definition Row ::
  "'v list \<Rightarrow> string option \<Rightarrow> ('x, 'c, 'f, 'v) dataWriter
     \<Rightarrow> error option \<times> ('x, 'c, 'f, 'v) dataWriter" where
  "Row vals codec_result writer =
     (if closed writer then (Some ErrClosedWriter, writer)
      else
        let writer = writer\<lparr>written := written writer + 1\<rparr>
        in (collaborator codec_result,
            writer\<lparr>client := client writer
                      @ [Columns_Write (columns writer) (ctx writer) (formats writer) vals]\<rparr>))"

text \<open>The loop of \<^verbatim>\<open>CopyIn\<close>: \<^verbatim>\<open>for i := 0; i < n; i++ { writer.client.AddInt16(0) }\<close>.\<close>

function CopyIn_loop ::
  "int \<Rightarrow> int \<Rightarrow> ('x, 'c, 'f, 'v) buffer_Writer \<Rightarrow> ('x, 'c, 'f, 'v) buffer_Writer" where
  "CopyIn_loop i n w = (if i < n then CopyIn_loop (i + 1) n (w @ [AddInt16 0]) else w)"
  by pat_completeness auto
termination
  by (relation "measure (\<lambda>(i, n, w). nat (n - i))") auto

declare CopyIn_loop.simps [simp del]

definition CopyIn ::
  "string option \<Rightarrow> ('x, 'c, 'f, 'v) dataWriter \<Rightarrow> error option \<times> ('x, 'c, 'f, 'v) dataWriter" where
  "CopyIn end_result writer =
     (if closed writer then (Some ErrClosedWriter, writer)
      else
        let n = 3;
            c = client writer @ [Start ServerCopyInResponse];
            c = c @ [AddByte 0];
            c = c @ [AddInt16 (of_int n)];
            c = CopyIn_loop 0 n c;
            c = c @ [End];
            writer = writer\<lparr>client := c\<rparr>
        in (case collaborator end_result of
              Some err \<Rightarrow> (Some err, writer)
            | None \<Rightarrow> (None, writer)))"

definition close :: "('x, 'c, 'f, 'v) dataWriter \<Rightarrow> ('x, 'c, 'f, 'v) dataWriter" where
  "close writer = writer\<lparr>closed := True\<rparr>"

text \<open>The deferred \<^verbatim>\<open>close\<close> runs once the result is fixed.\<close>

definition Empty ::
  "('x, 'c, 'f, 'v) dataWriter \<Rightarrow> error option \<times> ('x, 'c, 'f, 'v) dataWriter" where
  "Empty writer =
     (if closed writer then (Some ErrClosedWriter, writer)
      else if written writer \<noteq> 0 then (Some ErrDataWritten, writer)
      else (None, close writer))"

definition Written :: "('x, 'c, 'f, 'v) dataWriter \<Rightarrow> 64 word" where
  "Written writer = written writer"

definition commandComplete ::
  "('x, 'c, 'f, 'v) buffer_Writer \<Rightarrow> string \<Rightarrow> string option
     \<Rightarrow> error option \<times> ('x, 'c, 'f, 'v) buffer_Writer" where
  "commandComplete writer description end_result =
     (let writer = writer @ [Start ServerCommandComplete];
          writer = writer @ [AddString description];
          writer = writer @ [AddNullTerminate]
      in (collaborator end_result, writer @ [End]))"

definition Complete ::
  "string \<Rightarrow> string option \<Rightarrow> ('x, 'c, 'f, 'v) dataWriter
     \<Rightarrow> error option \<times> ('x, 'c, 'f, 'v) dataWriter" where
  "Complete description end_result writer =
     (if closed writer then (Some ErrClosedWriter, writer)
      else
        let (err, writer) =
              (if written writer = 0 \<and> columns writer \<noteq> None then Empty writer
               else (None, writer))
        in (case err of
              Some e \<Rightarrow> (Some e, writer)
            | None \<Rightarrow>
                let (res, c) = commandComplete (client writer) description end_result
                in (res, close (writer\<lparr>client := c\<rparr>))))"

subsection \<open>Sequences of calls\<close>

text \<open>
  A caller's use of one writer is a list of calls. Each call carries its arguments and,
  where the operation asks a collaborator, the collaborator's answer.
\<close>

datatype ('c, 'v) call =
    CallDefine "'c option" "string option"
  | CallRow "'v list" "string option"
  | CallCopyIn "string option"
  | CallEmpty
  | CallWritten
  | CallComplete string "string option"

datatype ret = Err "error option" | Count "64 word"

fun step ::
  "('c, 'v) call \<Rightarrow> ('x, 'c, 'f, 'v) dataWriter \<Rightarrow> ret \<times> ('x, 'c, 'f, 'v) dataWriter" where
  "step (CallDefine cols r) w = (let (e, w') = Define cols r w in (Err e, w'))"
| "step (CallRow vals r) w = (let (e, w') = Row vals r w in (Err e, w'))"
| "step (CallCopyIn r) w = (let (e, w') = CopyIn r w in (Err e, w'))"
| "step CallEmpty w = (let (e, w') = Empty w in (Err e, w'))"
| "step CallWritten w = (Count (Written w), w)"
| "step (CallComplete d r) w = (let (e, w') = Complete d r w in (Err e, w'))"

fun run ::
  "('c, 'v) call list \<Rightarrow> ('x, 'c, 'f, 'v) dataWriter
     \<Rightarrow> ret list \<times> ('x, 'c, 'f, 'v) dataWriter" where
  "run [] w = ([], w)"
| "run (c # cs) w =
     (let (r, w') = step c w; (rs, w'') = run cs w' in (r # rs, w''))"


text \<open>
  What a closed writer answers: \<^verbatim>\<open>Written\<close> still reads the counter, every other call is
  refused with \<^verbatim>\<open>ErrClosedWriter\<close>.
\<close>

fun closed_answer :: "('x, 'c, 'f, 'v) dataWriter \<Rightarrow> ('c, 'v) call \<Rightarrow> ret" where
  "closed_answer w CallWritten = Count (written w)"
| "closed_answer w c = Err (Some ErrClosedWriter)"

text \<open>The calls that end a response.\<close>

fun terminal :: "('c, 'v) call \<Rightarrow> bool" where
  "terminal CallEmpty = True"
| "terminal (CallComplete d r) = True"
| "terminal c = False"

section \<open>Properties\<close>

subsection \<open>Auxiliary facts\<close>

lemma CopyIn_loop_replicate: "CopyIn_loop i n c = c @ replicate (nat (n - i)) (AddInt16 0)"
proof (induction i n c rule: CopyIn_loop.induct)
  case (1 i n w)
  show ?case
  proof (cases "i < n")
    case True
    then have "nat (n - i) = Suc (nat (n - (i + 1)))" by simp
    with True 1 show ?thesis
      by (subst CopyIn_loop.simps) (simp add: replicate_append_same flip: replicate_Suc)
  next
    case False
    then show ?thesis by (subst CopyIn_loop.simps) simp
  qed
qed

lemma step_closed: "closed w \<Longrightarrow> step c w = (closed_answer w c, w)"
  by (cases c)
     (simp_all add: Define_def Row_def CopyIn_def Empty_def Complete_def Written_def)

lemma run_closed: "closed w \<Longrightarrow> run cs w = (map (closed_answer w) cs, w)"
  by (induction cs) (simp_all add: step_closed)

lemma run_append:
  "run (xs @ ys) w =
     (let (rs, w') = run xs w; (rs', w'') = run ys w' in (rs @ rs', w''))"
  by (induction xs arbitrary: w) (simp_all add: split_beta Let_def)

lemma Empty_open:
  "\<not> closed w \<Longrightarrow> written w = 0 \<Longrightarrow> Empty w = (None, close w)"
  by (simp add: Empty_def)

lemma Complete_open:
  "\<not> closed w \<Longrightarrow>
   Complete d r w =
     (collaborator r,
      w\<lparr>client := client w @ [Start ServerCommandComplete, AddString d, AddNullTerminate, End],
        closed := True\<rparr>)"
  by (simp add: Complete_def Empty_def close_def commandComplete_def Let_def)

lemma Empty_success_closed: "fst (Empty w) = None \<Longrightarrow> closed (snd (Empty w))"
  by (auto simp: Empty_def close_def split: if_splits)

lemma Complete_success_closed:
  "fst (Complete d r w) = None \<Longrightarrow> closed (snd (Complete d r w))"
  by (cases "closed w") (simp_all add: Complete_open, simp add: Complete_def)

lemma terminal_success_closed:
  "terminal c \<Longrightarrow> step c w = (Err None, w') \<Longrightarrow> closed w'"
  by (cases c) (auto simp: split_beta Let_def Empty_success_closed Complete_success_closed)

lemma Row_open:
  "\<not> closed w \<Longrightarrow>
   Row vals r w =
     (collaborator r,
      w\<lparr>written := written w + 1,
        client := client w @ [Columns_Write (columns w) (ctx w) (formats w) vals]\<rparr>)"
  by (simp add: Row_def)


lemma CopyIn_open:
  "\<not> closed w \<Longrightarrow>
   CopyIn r w =
     (collaborator r,
      w\<lparr>client := client w @ [Start ServerCopyInResponse, AddByte 0, AddInt16 3,
                                 AddInt16 0, AddInt16 0, AddInt16 0, End]\<rparr>)"
  by (cases r) (simp_all add: CopyIn_def CopyIn_loop_replicate collaborator_def numeral_3_eq_3)

lemma Define_open_aux:
  "\<not> closed w \<Longrightarrow>
   Define cols r w =
     (collaborator r,
      w\<lparr>columns := cols, client := client w @ [Columns_Define cols (ctx w) (formats w)]\<rparr>)"
  by (simp add: Define_def)

subsection \<open>Closing is final\<close>

text \<open>
  C1: in any sequence of calls on one writer, once \<^verbatim>\<open>Empty\<close> or \<^verbatim>\<open>Complete\<close> has returned
  \<^verbatim>\<open>nil\<close>, every later \<^verbatim>\<open>Row\<close>, \<^verbatim>\<open>Empty\<close>, \<^verbatim>\<open>Complete\<close>, \<^verbatim>\<open>CopyIn\<close> and \<^verbatim>\<open>Define\<close> returns
  \<^verbatim>\<open>ErrClosedWriter\<close> and leaves the writer, and with it the frame sink, as it was: a second
  \<^verbatim>\<open>Complete\<close> adds no CommandComplete message.
\<close>

theorem closed_after_terminal_success:
  assumes "terminal c" and "run pre w0 = (rs, w1)" and "step c w1 = (Err None, w)"
  shows "run (pre @ c # post) w0 = (rs @ Err None # map (closed_answer w) post, w)
         \<and> Complete d r w = (Some ErrClosedWriter, w)"
proof -
  from assms(1,3) have cl: "closed w" by (rule terminal_success_closed)
  then have "run post w = (map (closed_answer w) post, w)" by (rule run_closed)
  with assms(2,3) have "run (pre @ c # post) w0 = (rs @ Err None # map (closed_answer w) post, w)"
    by (simp add: run_append)
  moreover from cl have "Complete d r w = (Some ErrClosedWriter, w)"
    by (simp add: Complete_def)
  ultimately show ?thesis by simp
qed

theorem closed_after_terminal_success_witness:
  "terminal (CallComplete ''SELECT 1'' None :: (string list, string) call)
   \<and> fst (run ([CallDefine (Some [''id'']) None, CallRow [''1''] None]
          @ CallComplete ''SELECT 1'' None
          # [CallRow [''2''] None, CallEmpty, CallComplete ''SELECT 2'' None, CallCopyIn None,
             CallDefine None None, CallWritten])
        (NewDataWriter () None [0::nat] []))
     = [Err None, Err None, Err None, Err (Some ErrClosedWriter), Err (Some ErrClosedWriter),
        Err (Some ErrClosedWriter), Err (Some ErrClosedWriter), Err (Some ErrClosedWriter),
        Count 1]
   \<and> client (snd (run ([CallDefine (Some [''id'']) None, CallRow [''1''] None]
          @ CallComplete ''SELECT 1'' None
          # [CallRow [''2''] None, CallEmpty, CallComplete ''SELECT 2'' None, CallCopyIn None,
             CallDefine None None, CallWritten])
        (NewDataWriter () None [0::nat] [])))
     = [Columns_Define (Some [''id'']) () [0], Columns_Write (Some [''id'']) () [0] [''1''],
        Start ServerCommandComplete, AddString ''SELECT 1'', AddNullTerminate, End]"
proof -
  let ?init = "NewDataWriter () None [0::nat] [] :: (unit, string list, nat, string) dataWriter"
  let ?pre = "[CallDefine (Some [''id'']) None, CallRow [''1''] None] :: (string list, string) call list"
  let ?c = "CallComplete ''SELECT 1'' None :: (string list, string) call"
  let ?mid = "snd (run ?pre ?init)"
  let ?fin = "snd (step ?c ?mid)"
  have h1: "terminal ?c" by simp
  have h2: "run ?pre ?init = ([Err None, Err None], ?mid)"
    by (simp add: NewDataWriter_def Define_def Row_def collaborator_def)
  have h3: "step ?c ?mid = (Err None, ?fin)"
    by (simp add: NewDataWriter_def Define_def Row_def Complete_def Empty_def close_def
          commandComplete_def collaborator_def)
  have w: "?fin = \<lparr>ctx = (), columns = Some [''id''], formats = [0],
      client = [Columns_Define (Some [''id'']) () [0], Columns_Write (Some [''id'']) () [0] [''1''],
        Start ServerCommandComplete, AddString ''SELECT 1'', AddNullTerminate, End],
      closed = True, written = 1\<rparr>"
    by (simp add: NewDataWriter_def Define_def Row_def Complete_def Empty_def close_def
          commandComplete_def collaborator_def)
  have r: "run (?pre @ ?c # [CallRow [''2''] None, CallEmpty, CallComplete ''SELECT 2'' None,
               CallCopyIn None, CallDefine None None, CallWritten]) ?init
           = ([Err None, Err None] @ Err None # map (closed_answer ?fin)
                [CallRow [''2''] None, CallEmpty, CallComplete ''SELECT 2'' None,
                 CallCopyIn None, CallDefine None None, CallWritten], ?fin)"
    using closed_after_terminal_success [OF h1 h2 h3] by (rule conjunct1)
  show ?thesis unfolding r fst_conv snd_conv w by simp
qed

text \<open>
  C8: \<^verbatim>\<open>closed\<close> is never reset, so it goes from false to true at most once, and once it is
  true \<^verbatim>\<open>written\<close> does not change any more: if the writer is closed after some calls, it
  is closed, with the same count, after any further calls, and after each single call
  (\<^verbatim>\<open>Define\<close>, \<^verbatim>\<open>Row\<close>, \<^verbatim>\<open>Empty\<close>, \<^verbatim>\<open>Complete\<close>, \<^verbatim>\<open>CopyIn\<close>, \<^verbatim>\<open>Written\<close>).
\<close>

theorem closed_is_final:
  assumes "closed (snd (run pre init))"
  shows "closed (snd (run (pre @ post) init))
         \<and> written (snd (run (pre @ post) init)) = written (snd (run pre init))
         \<and> closed (snd (step c (snd (run pre init))))
         \<and> written (snd (step c (snd (run pre init)))) = written (snd (run pre init))"
proof -
  have "snd (run (pre @ post) init) = snd (run post (snd (run pre init)))"
    by (simp add: run_append split_beta)
  with assms show ?thesis by (simp add: run_closed step_closed)
qed

theorem closed_is_final_witness:
  "closed (snd (run [CallRow [''1''] None, CallComplete ''SELECT 1'' None]
             (NewDataWriter () (Some [''id'']) [0::nat] [])))
   \<and> closed (snd (run ([CallRow [''1''] None, CallComplete ''SELECT 1'' None]
                       @ [CallRow [''2''] None, CallDefine None None, CallEmpty, CallCopyIn None,
                          CallWritten, CallComplete ''SELECT 2'' None])
             (NewDataWriter () (Some [''id'']) [0::nat] [])))
   \<and> written (snd (run ([CallRow [''1''] None, CallComplete ''SELECT 1'' None]
                       @ [CallRow [''2''] None, CallDefine None None, CallEmpty, CallCopyIn None,
                          CallWritten, CallComplete ''SELECT 2'' None])
             (NewDataWriter () (Some [''id'']) [0::nat] []))) = 1"
proof -
  let ?init = "NewDataWriter () (Some [''id'']) [0::nat] [] :: (unit, string list, nat, string) dataWriter"
  let ?pre = "[CallRow [''1''] None, CallComplete ''SELECT 1'' None] :: (string list, string) call list"
  have h: "closed (snd (run ?pre ?init))"
    by (simp add: NewDataWriter_def Row_def Complete_def commandComplete_def close_def
          collaborator_def)
  have n: "written (snd (run ?pre ?init)) = 1"
    by (simp add: NewDataWriter_def Row_def Complete_def commandComplete_def close_def
          collaborator_def)
  show ?thesis
    using closed_is_final [OF h, of "[CallRow [''2''] None, CallDefine None None, CallEmpty,
        CallCopyIn None, CallWritten, CallComplete ''SELECT 2'' None]"] h n
    by simp
qed

subsection \<open>The row counter\<close>

text \<open>
  C2: \<^verbatim>\<open>Written\<close> is claimed to count the \<^verbatim>\<open>Row\<close> calls that returned \<^verbatim>\<open>nil\<close>. \<^verbatim>\<open>Row\<close>
  increments the counter before it asks the codec to write, so a row whose write fails is
  counted: with two columns declared, a row of one value is refused by the codec, and
  \<^verbatim>\<open>Written\<close> is 1 although no \<^verbatim>\<open>Row\<close> call succeeded.
\<close>

theorem Row_failed_write_is_counted:
  "run [CallDefine (Some [''id'', ''name'']) None, CallRow [''1''] (Some ''unexpected columns''),
        CallWritten]
       (NewDataWriter () None [0::nat] [])
   = ([Err None, Err (Some (ErrCollaborator ''unexpected columns'')), Count 1],
      \<lparr>ctx = (), columns = Some [''id'', ''name''], formats = [0],
       client = [Columns_Define (Some [''id'', ''name'']) () [0],
                 Columns_Write (Some [''id'', ''name'']) () [0] [''1'']],
       closed = False, written = 1\<rparr>)"
  by (simp add: NewDataWriter_def Define_def Row_def Written_def collaborator_def)

subsection \<open>Empty\<close>

text \<open>
  C3: \<^verbatim>\<open>Empty\<close> returns \<^verbatim>\<open>ErrDataWritten\<close> exactly when the writer is open and
  \<^verbatim>\<open>written > 0\<close>; on a closed writer it returns \<^verbatim>\<open>ErrClosedWriter\<close>, whatever the counter;
  on an open writer with \<^verbatim>\<open>written == 0\<close> it succeeds.
\<close>

theorem Empty_errors:
  "(fst (Empty w) = Some ErrDataWritten \<longleftrightarrow> \<not> closed w \<and> 0 < written w)
   \<and> (closed w \<longrightarrow> fst (Empty w) = Some ErrClosedWriter)
   \<and> (\<not> closed w \<and> written w = 0 \<longrightarrow> fst (Empty w) = None)"
  by (simp add: Empty_def word_greater_zero_iff)

theorem Empty_errors_witness:
  "fst (Empty (NewDataWriter () (Some [''id'']) [0::nat] [] :: (unit, string list, nat, string) dataWriter)) = None
   \<and> fst (Empty (snd (Row [''1''] None
        (NewDataWriter () (Some [''id'']) [0::nat] [] :: (unit, string list, nat, string) dataWriter))))
      = Some ErrDataWritten
   \<and> fst (Empty (snd (Empty
        (NewDataWriter () (Some [''id'']) [0::nat] [] :: (unit, string list, nat, string) dataWriter))))
      = Some ErrClosedWriter"
proof -
  let ?init = "NewDataWriter () (Some [''id'']) [0::nat] [] :: (unit, string list, nat, string) dataWriter"
  have a: "\<not> closed ?init \<and> written ?init = 0" by (simp add: NewDataWriter_def)
  have b: "\<not> closed (snd (Row [''1''] None ?init)) \<and> 0 < written (snd (Row [''1''] None ?init))"
    by (simp add: NewDataWriter_def Row_def)
  have c: "closed (snd (Empty ?init))" by (simp add: NewDataWriter_def Empty_def close_def)
  show ?thesis
    using a b c Empty_errors [of ?init] Empty_errors [of "snd (Row [''1''] None ?init)"]
      Empty_errors [of "snd (Empty ?init)"]
    by blast
qed


subsection \<open>Complete\<close>

text \<open>
  C4: on an open writer with a column spec set and no row written, \<^verbatim>\<open>Complete(description)\<close>
  returns \<^verbatim>\<open>nil\<close> when the sink accepts the message, \<^verbatim>\<open>Written\<close> stays 0, the writer ends
  closed, and the sink receives exactly one CommandComplete message with the description:
  the \<^verbatim>\<open>Empty\<close> that \<^verbatim>\<open>Complete\<close> runs first does not keep the message from being written.
\<close>

theorem Complete_described_zero_rows:
  assumes "\<not> closed w" and "columns w \<noteq> None" and "written w = 0"
  shows "fst (Complete d None w) = None
         \<and> Written (snd (Complete d None w)) = 0
         \<and> closed (snd (Complete d None w))
         \<and> client (snd (Complete d None w))
             = client w @ [Start ServerCommandComplete, AddString d, AddNullTerminate, End]"
  using assms by (simp add: Complete_open Written_def collaborator_def)

theorem Complete_described_zero_rows_witness:
  "Complete ''SELECT 0'' None
     (snd (Define (Some [''id'', ''name'']) None (NewDataWriter () None [0::nat] [])))
   = (None,
      \<lparr>ctx = (), columns = Some [''id'', ''name''], formats = [0],
       client = [Columns_Define (Some [''id'', ''name'']) () [0],
                 Start ServerCommandComplete, AddString ''SELECT 0'', AddNullTerminate, End]
                :: (unit, string list, nat, string) buffer_Writer,
       closed = True, written = 0\<rparr>)"
proof -
  let ?init = "snd (Define (Some [''id'', ''name'']) None (NewDataWriter () None [0::nat] []))
                 :: (unit, string list, nat, string) dataWriter"
  have init: "?init = \<lparr>ctx = (), columns = Some [''id'', ''name''], formats = [0],
       client = [Columns_Define (Some [''id'', ''name'']) () [0]], closed = False, written = 0\<rparr>"
    by (simp add: NewDataWriter_def Define_def)
  have h1: "\<not> closed ?init" and h2: "columns ?init \<noteq> None" and h3: "written ?init = 0"
    by (simp_all add: init)
  have other: "ctx (snd (Complete ''SELECT 0'' None ?init)) = ()
      \<and> columns (snd (Complete ''SELECT 0'' None ?init)) = Some [''id'', ''name'']
      \<and> formats (snd (Complete ''SELECT 0'' None ?init)) = [0]"
    by (simp add: init Complete_def Empty_def close_def commandComplete_def)
  show ?thesis
    using Complete_described_zero_rows [OF h1 h2 h3, of "''SELECT 0''"] other
    unfolding Written_def init
    by (cases "Complete ''SELECT 0'' None \<lparr>ctx = (), columns = Some [''id'', ''name''], formats = [0::nat],
       client = [Columns_Define (Some [''id'', ''name'']) () [0]] :: (unit, string list, nat, string) buffer_Writer, closed = False, written = 0\<rparr>")
       auto
qed

text \<open>
  C5: the \<^verbatim>\<open>Empty\<close> that \<^verbatim>\<open>Complete\<close> calls cannot fail. \<^verbatim>\<open>Complete\<close> calls it only after
  its own closed check and only when \<^verbatim>\<open>written == 0\<close>, where \<^verbatim>\<open>Empty\<close> returns \<^verbatim>\<open>nil\<close> and
  closes; so on an open writer \<^verbatim>\<open>Complete\<close> returns neither \<^verbatim>\<open>ErrClosedWriter\<close> nor
  \<^verbatim>\<open>ErrDataWritten\<close>.
\<close>

theorem internal_Empty_cannot_fail:
  assumes "\<not> closed w"
  shows "(written w = 0 \<and> columns w \<noteq> None \<longrightarrow> Empty w = (None, close w))
         \<and> fst (Complete d r w) \<noteq> Some ErrClosedWriter
         \<and> fst (Complete d r w) \<noteq> Some ErrDataWritten"
  using assms by (cases r) (simp_all add: Empty_open Complete_open collaborator_def)

theorem internal_Empty_cannot_fail_witness:
  "\<not> closed (NewDataWriter () (Some [''id'']) [0::nat] [] :: (unit, string list, nat, string) dataWriter)
   \<and> Empty (NewDataWriter () (Some [''id'']) [0::nat] [] :: (unit, string list, nat, string) dataWriter)
       = (None, \<lparr>ctx = (), columns = Some [''id''], formats = [0], client = [],
                 closed = True, written = 0\<rparr>)
   \<and> fst (Complete ''SELECT 0'' None
        (NewDataWriter () (Some [''id'']) [0::nat] [] :: (unit, string list, nat, string) dataWriter))
       \<noteq> Some ErrDataWritten"
proof -
  let ?init = "NewDataWriter () (Some [''id'']) [0::nat] [] :: (unit, string list, nat, string) dataWriter"
  have h: "\<not> closed ?init" by (simp add: NewDataWriter_def)
  have g: "written ?init = 0 \<and> columns ?init \<noteq> None" by (simp add: NewDataWriter_def)
  have c: "close ?init = \<lparr>ctx = (), columns = Some [''id''], formats = [0], client = [],
                 closed = True, written = 0\<rparr>"
    by (simp add: NewDataWriter_def close_def)
  show ?thesis
    using internal_Empty_cannot_fail [OF h, of "''SELECT 0''" None] h g unfolding c by blast
qed

text \<open>
  C6: every \<^verbatim>\<open>Complete(description)\<close> that returns \<^verbatim>\<open>nil\<close> has given the sink exactly one
  message: begun with the command-complete tag, then the description string, then the
  null terminator, then ended (the sink's envelope). The writer was open and is closed.
\<close>

theorem Complete_success_message:
  assumes "fst (Complete d r w) = None"
  shows "client (snd (Complete d r w))
           = client w @ [Start ServerCommandComplete, AddString d, AddNullTerminate, End]
         \<and> \<not> closed w \<and> closed (snd (Complete d r w))"
proof (cases "closed w")
  case True
  with assms show ?thesis by (simp add: Complete_def)
next
  case False
  then show ?thesis by (simp add: Complete_open)
qed

theorem Complete_success_message_witness:
  "fst (Complete ''SELECT 1'' None
     (snd (Row [''1''] None (NewDataWriter () (Some [''id'']) [0::nat] [])))) = None
   \<and> client (snd (Complete ''SELECT 1'' None
     (snd (Row [''1''] None (NewDataWriter () (Some [''id'']) [0::nat] [])))))
     = [Columns_Write (Some [''id'']) () [0] [''1''],
        Start ServerCommandComplete, AddString ''SELECT 1'', AddNullTerminate, End
        :: (unit, string list, nat, string) sink_call]"
proof -
  let ?init = "snd (Row [''1''] None (NewDataWriter () (Some [''id'']) [0::nat] []))
                 :: (unit, string list, nat, string) dataWriter"
  have h: "fst (Complete ''SELECT 1'' None ?init) = None"
    by (simp add: NewDataWriter_def Row_def Complete_def commandComplete_def collaborator_def)
  have c: "client ?init = [Columns_Write (Some [''id'']) () [0] [''1'']]"
    by (simp add: NewDataWriter_def Row_def)
  show ?thesis using Complete_success_message [OF h] h c by simp
qed

text \<open>
  C9: when the sink reports an error for the CommandComplete message, \<^verbatim>\<open>Complete\<close> returns
  that error and the writer is closed all the same: every later call except \<^verbatim>\<open>Written\<close>
  returns \<^verbatim>\<open>ErrClosedWriter\<close> and changes nothing.
\<close>

theorem Complete_sink_error_still_closes:
  assumes "\<not> closed w"
  shows "fst (Complete d (Some e) w) = Some (ErrCollaborator e)
         \<and> closed (snd (Complete d (Some e) w))
         \<and> run cs (snd (Complete d (Some e) w))
             = (map (closed_answer (snd (Complete d (Some e) w))) cs,
                snd (Complete d (Some e) w))"
proof -
  from assms have "closed (snd (Complete d (Some e) w))" by (simp add: Complete_open)
  with assms show ?thesis by (simp add: run_closed Complete_open collaborator_def)
qed

theorem Complete_sink_error_still_closes_witness:
  "fst (run (CallComplete ''SELECT 0'' (Some ''broken pipe'')
             # [CallRow [''1''] None, CallDefine None None, CallEmpty, CallCopyIn None,
                CallComplete ''SELECT 0'' None, CallWritten])
          (NewDataWriter () (Some [''id'']) [0::nat] []))
   = [Err (Some (ErrCollaborator ''broken pipe'')), Err (Some ErrClosedWriter),
      Err (Some ErrClosedWriter), Err (Some ErrClosedWriter), Err (Some ErrClosedWriter),
      Err (Some ErrClosedWriter), Count 0]"
proof -
  let ?init = "NewDataWriter () (Some [''id'']) [0::nat] [] :: (unit, string list, nat, string) dataWriter"
  let ?fin = "snd (Complete ''SELECT 0'' (Some ''broken pipe'') ?init)"
  have h: "\<not> closed ?init" by (simp add: NewDataWriter_def)
  have n: "written ?fin = 0"
    by (simp add: NewDataWriter_def Complete_def Empty_def commandComplete_def close_def)
  show ?thesis
    using Complete_sink_error_still_closes [OF h, of "''SELECT 0''" "''broken pipe''"
        "[CallRow [''1''] None, CallDefine None None, CallEmpty, CallCopyIn None,
          CallComplete ''SELECT 0'' None, CallWritten]"] n
    by (simp add: split_beta Written_def)
qed

subsection \<open>CopyIn\<close>

text \<open>
  C7: \<^verbatim>\<open>CopyIn\<close> on an open writer gives the sink exactly one CopyInResponse message: the
  copy-in-response tag, one format byte 0, the 16-bit column count 3, and three 16-bit
  format codes 0; it returns what the sink answers and changes neither \<^verbatim>\<open>written\<close> nor
  \<^verbatim>\<open>closed\<close>.
\<close>

theorem CopyIn_message:
  assumes "\<not> closed w"
  shows "fst (CopyIn r w) = collaborator r
         \<and> client (snd (CopyIn r w))
             = client w @ [Start ServerCopyInResponse, AddByte 0, AddInt16 3,
                           AddInt16 0, AddInt16 0, AddInt16 0, End]
         \<and> written (snd (CopyIn r w)) = written w
         \<and> closed (snd (CopyIn r w)) = closed w"
  using assms by (simp add: CopyIn_open)

theorem CopyIn_message_witness:
  "CopyIn None (NewDataWriter () (Some [''id'']) [0::nat] [])
   = (None,
      \<lparr>ctx = (), columns = Some [''id''], formats = [0],
       client = [Start ServerCopyInResponse, AddByte 0, AddInt16 3,
                 AddInt16 0, AddInt16 0, AddInt16 0, End]
                :: (unit, string list, nat, string) buffer_Writer,
       closed = False, written = 0\<rparr>)"
proof -
  let ?init = "NewDataWriter () (Some [''id'']) [0::nat] [] :: (unit, string list, nat, string) dataWriter"
  have h: "\<not> closed ?init" by (simp add: NewDataWriter_def)
  have other: "ctx (snd (CopyIn None ?init)) = () \<and> columns (snd (CopyIn None ?init)) = Some [''id'']
      \<and> formats (snd (CopyIn None ?init)) = [0]"
    by (simp add: NewDataWriter_def CopyIn_def collaborator_def)
  have i: "client ?init = [] \<and> written ?init = 0 \<and> closed ?init = False"
    by (simp add: NewDataWriter_def)
  show ?thesis
    using CopyIn_message [OF h, of None] other i
    by (cases "CopyIn None ?init") (auto simp: collaborator_def)
qed


subsection \<open>Define\<close>

text \<open>
  C10: on an open writer \<^verbatim>\<open>Define\<close> is never refused, however many rows have been written:
  it stores its argument as the column spec, hands the sink to the codec for the column
  description, and returns what the codec answers, \<^verbatim>\<open>nil\<close> when the codec succeeds.
\<close>

theorem Define_on_open_writer:
  assumes "\<not> closed w"
  shows "fst (Define cols r w) = collaborator r
         \<and> fst (Define cols None w) = None
         \<and> snd (Define cols r w)
             = w\<lparr>columns := cols,
                 client := client w @ [Columns_Define cols (ctx w) (formats w)]\<rparr>"
  using assms by (simp add: Define_open_aux collaborator_def)

theorem Define_on_open_writer_witness:
  "run [CallRow [''1''] None, CallRow [''2''] None, CallDefine (Some [''id'', ''name'']) None]
       (NewDataWriter () (Some [''id'']) [0::nat] [])
   = ([Err None, Err None, Err None],
      \<lparr>ctx = (), columns = Some [''id'', ''name''], formats = [0],
       client = [Columns_Write (Some [''id'']) () [0] [''1''],
                 Columns_Write (Some [''id'']) () [0] [''2''],
                 Columns_Define (Some [''id'', ''name'']) () [0]],
       closed = False, written = 2\<rparr>)"
proof -
  let ?init = "NewDataWriter () (Some [''id'']) [0::nat] [] :: (unit, string list, nat, string) dataWriter"
  let ?mid = "\<lparr>ctx = (), columns = Some [''id''], formats = [0::nat],
       client = [Columns_Write (Some [''id'']) () [0] [''1''],
                 Columns_Write (Some [''id'']) () [0] [''2'']]
                :: (unit, string list, nat, string) buffer_Writer,
       closed = False, written = 2\<rparr>"
  have m: "run [CallRow [''1''] None, CallRow [''2''] None] ?init = ([Err None, Err None], ?mid)"
    by (simp add: NewDataWriter_def Row_def collaborator_def)
  have h: "\<not> closed ?mid" by simp
  have "run ([CallRow [''1''] None, CallRow [''2''] None] @ [CallDefine (Some [''id'', ''name'']) None]) ?init
     = ([Err None, Err None, Err None],
      \<lparr>ctx = (), columns = Some [''id'', ''name''], formats = [0],
       client = [Columns_Write (Some [''id'']) () [0] [''1''],
                 Columns_Write (Some [''id'']) () [0] [''2''],
                 Columns_Define (Some [''id'', ''name'']) () [0]],
       closed = False, written = 2\<rparr>)"
    unfolding run_append m
    using Define_on_open_writer [OF h, of "Some [''id'', ''name'']" None]
    by (simp add: split_beta collaborator_def)
  then show ?thesis by simp
qed


end
